theory Spec2Isabelle
  imports Complex_Main
begin

text \<open>
  SpeakTogether shows live captions and translations in a floating overlay window. This
  theory embeds the parts of the desktop client that carry a caption from the audio
  WebSocket to the overlay: the message handler of the renderer with its update throttle,
  the caption and window functions of the Electron main process, and the buffer policy
  of the audio segmenter. Clock readings (\<open>Date.now()\<close>) and the outcome of each
  platform call are inputs of the model.
\<close>

section \<open>JavaScript values\<close>

text \<open>
  The caption payloads that cross the IPC boundary are plain JavaScript objects whose
  fields may be missing. A field value is one of the primitive values below; numbers are
  modelled as rationals (the only arithmetic in the code is \<open>confidence * 100\<close>), strings
  as lists of characters. A missing property reads as \<open>undefined\<close>.
\<close>

datatype jsval = JUndefined | JNull | JBool bool | JNum rat | JStr string

text \<open>Truthiness as used by \<open>||\<close>, \<open>&&\<close>, \<open>!\<close> and \<open>?:\<close>.\<close>

fun truthy :: "jsval \<Rightarrow> bool" where
  "truthy JUndefined = False"
| "truthy JNull = False"
| "truthy (JBool b) = b"
| "truthy (JNum r) = (r \<noteq> 0)"
| "truthy (JStr s) = (s \<noteq> [])"

text \<open>\<open>a || b\<close>: the left operand when it is truthy, otherwise the right operand.\<close>

definition js_or :: "jsval \<Rightarrow> jsval \<Rightarrow> jsval" where
  "js_or a b = (if truthy a then a else b)"

text \<open>\<open>typeof v === 'number'\<close>.\<close>

fun is_number :: "jsval \<Rightarrow> bool" where
  "is_number (JNum r) = True"
| "is_number v = False"

type_synonym jsobj = "(string \<times> jsval) list"

text \<open>Property read \<open>obj.k\<close> on an object literal.\<close>

definition js_get :: "jsobj \<Rightarrow> string \<Rightarrow> jsval" where
  "js_get obj k = (case map_of obj k of None \<Rightarrow> JUndefined | Some v \<Rightarrow> v)"

section \<open>The Electron main process (main.js)\<close>

subsection \<open>Data\<close>

text \<open>
  \<open>bilingual_data\<close> is the object that \<open>updateCaptionText\<close> builds and sends to the caption
  window on the channel \<open>update-live-caption\<close>: the caption state shown by the overlay.
\<close>

record bilingual_data =
  original :: jsval
  bd_translation :: jsval
  bd_confidence :: jsval
  bd_sourceLanguage :: jsval
  bd_targetLanguage :: jsval
  fromTranscription :: jsval
  isRealTime :: jsval
  timestamp :: int

text \<open>A thrown JavaScript \<open>Error\<close>: its \<open>message\<close> and its \<open>stack\<close>.\<close>

datatype js_error = Error (message: string) (stack: string)

text \<open>\<open>new Error(msg)\<close>; the stack text starts with the message, frames are left out.\<close>

definition new_Error :: "string \<Rightarrow> js_error" where
  "new_Error msg = Error msg (''Error: '' @ msg)"

definition null_TypeError :: js_error where
  "null_TypeError =
     Error ''Cannot read properties of null'' ''TypeError: Cannot read properties of null''"

datatype os = Darwin | Win32 | Linux

text \<open>The calls into the Electron window API that the caption code makes.\<close>

datatype call =
    GetPrimaryDisplay
  | NewBrowserWindow
  | SetAlwaysOnTop
  | On string
  | LoadContent
  | GetBounds
  | IsVisible
  | IsAlwaysOnTop
  | Show
  | Focus
  | Hide
  | Close
  | Send

text \<open>
  What is observable of a \<open>BrowserWindow\<close>: whether it is shown, whether it is always on
  top, whether it has been destroyed, and the caption objects it has received.
\<close>

record window =
  visible :: bool
  alwaysOnTop :: bool
  destroyed :: bool
  received :: "bilingual_data list"

text \<open>
  The fields of \<open>SpeakTogetherApp\<close> that the caption code reads and writes, together with
  the environment: \<open>process.platform\<close>, the outcomes of the coming platform calls
  (\<open>faults\<close>: the head decides the next call, \<open>Some e\<close> makes it throw \<open>e\<close>, \<open>None\<close> and the
  empty list let it return) and the log of the platform calls made so far with their
  outcome (\<open>True\<close>: returned).
\<close>

record main_state =
  captionWindow :: "window option"
  captionEnabled :: bool
  platform :: os
  faults :: "js_error option list"
  trace :: "(call \<times> bool) list"

subsection \<open>Statements that may throw\<close>

type_synonym 'a prog = "main_state \<Rightarrow> (js_error + 'a) \<times> main_state"

definition ret :: "'a \<Rightarrow> 'a prog" where
  "ret x = (\<lambda>s. (Inr x, s))"

definition throw :: "js_error \<Rightarrow> 'a prog" where
  "throw e = (\<lambda>s. (Inl e, s))"

definition bind_prog :: "'a prog \<Rightarrow> ('a \<Rightarrow> 'b prog) \<Rightarrow> 'b prog" where
  "bind_prog m f = (\<lambda>s. case m s of (Inl e, s') \<Rightarrow> (Inl e, s') | (Inr x, s') \<Rightarrow> f x s')"

definition then_prog :: "'a prog \<Rightarrow> 'b prog \<Rightarrow> 'b prog" where
  "then_prog m n = bind_prog m (\<lambda>_. n)"

text \<open>\<open>try { m } catch (e) { h e }\<close>\<close>

definition try_catch :: "'a prog \<Rightarrow> (js_error \<Rightarrow> 'a prog) \<Rightarrow> 'a prog" where
  "try_catch m h = (\<lambda>s. case m s of (Inl e, s') \<Rightarrow> h e s' | (Inr x, s') \<Rightarrow> (Inr x, s'))"

definition modify :: "(main_state \<Rightarrow> main_state) \<Rightarrow> unit prog" where
  "modify f = (\<lambda>s. (Inr (), f s))"

text \<open>\<open>if (this.captionWindow) { p } else { q }\<close>\<close>

definition if_window :: "'a prog \<Rightarrow> 'a prog \<Rightarrow> 'a prog" where
  "if_window p q = (\<lambda>s. case captionWindow s of None \<Rightarrow> q s | Some w \<Rightarrow> p s)"

subsection \<open>Platform calls\<close>

text \<open>The outcome of the next platform call, taken from \<open>faults\<close>.\<close>

definition next_fault :: "main_state \<Rightarrow> js_error option \<times> js_error option list" where
  "next_fault s = (case faults s of [] \<Rightarrow> (None, []) | f # fs \<Rightarrow> (f, fs))"

fun effect :: "call \<Rightarrow> window \<Rightarrow> window" where
  "effect Show w = w\<lparr>visible := True\<rparr>"
| "effect Hide w = w\<lparr>visible := False\<rparr>"
| "effect SetAlwaysOnTop w = w\<lparr>alwaysOnTop := True\<rparr>"
| "effect Close w = w\<lparr>visible := False, destroyed := True\<rparr>"
| "effect c w = w"

text \<open>
  A method call \<open>this.captionWindow.c(...)\<close>. On a null handle the property read throws a
  \<open>TypeError\<close> and no platform call is made. Otherwise the platform decides: the call
  throws and leaves the window as it is, or it returns and has its effect. The window
  after the call is returned, for the calls that read it.
\<close>

definition win_call :: "call \<Rightarrow> window prog" where
  "win_call c = (\<lambda>s.
     case captionWindow s of
       None \<Rightarrow> (Inl null_TypeError, s)
     | Some w \<Rightarrow>
         (case next_fault s of
            (Some e, fs) \<Rightarrow> (Inl e, s\<lparr>faults := fs, trace := trace s @ [(c, False)]\<rparr>)
          | (None, fs) \<Rightarrow>
              (Inr (effect c w),
               s\<lparr>captionWindow := Some (effect c w), faults := fs,
                 trace := trace s @ [(c, True)]\<rparr>)))"

text \<open>A run of window calls whose results are not used, stopping at the first throw.\<close>

fun calls :: "call list \<Rightarrow> unit prog" where
  "calls [] = ret ()"
| "calls (c # cs) = then_prog (win_call c) (calls cs)"

text \<open>\<open>screen.getPrimaryDisplay()\<close>: a platform call that needs no window.\<close>

definition getPrimaryDisplay :: "unit prog" where
  "getPrimaryDisplay = (\<lambda>s.
     case next_fault s of
       (Some e, fs) \<Rightarrow> (Inl e, s\<lparr>faults := fs, trace := trace s @ [(GetPrimaryDisplay, False)]\<rparr>)
     | (None, fs) \<Rightarrow> (Inr (), s\<lparr>faults := fs, trace := trace s @ [(GetPrimaryDisplay, True)]\<rparr>))"

text \<open>
  \<open>this.captionWindow = new BrowserWindow({..., alwaysOnTop: true, show: false, ...})\<close>:
  when the constructor throws, the handle keeps its value.
\<close>

definition fresh_window :: window where
  "fresh_window = \<lparr>visible = False, alwaysOnTop = True, destroyed = False, received = []\<rparr>"

definition new_BrowserWindow :: "unit prog" where
  "new_BrowserWindow = (\<lambda>s.
     case next_fault s of
       (Some e, fs) \<Rightarrow> (Inl e, s\<lparr>faults := fs, trace := trace s @ [(NewBrowserWindow, False)]\<rparr>)
     | (None, fs) \<Rightarrow>
         (Inr (), s\<lparr>captionWindow := Some fresh_window, faults := fs,
                    trace := trace s @ [(NewBrowserWindow, True)]\<rparr>))"

subsection \<open>showCaptionWindow, hideCaptionWindow\<close>

definition show_calls :: "os \<Rightarrow> call list" where
  "show_calls p =
     [GetBounds, IsVisible, Show, Focus, SetAlwaysOnTop]
       @ (if p = Darwin then [SetAlwaysOnTop] else [])
       @ [GetBounds, IsVisible, IsAlwaysOnTop]"

definition showCaptionWindow :: "bool prog" where
  "showCaptionWindow =
     if_window
       (try_catch
          (\<lambda>s. then_prog (calls (show_calls (platform s))) (ret True) s)
          (\<lambda>error. ret False))
       (ret False)"

definition hideCaptionWindow :: "bool prog" where
  "hideCaptionWindow =
     if_window
       (try_catch
          (then_prog (calls [GetBounds, IsVisible, Hide, IsVisible]) (ret True))
          (\<lambda>error. ret False))
       (ret False)"

subsection \<open>createCaptionWindow\<close>

text \<open>
  The event handlers registered on the new window and on its \<open>webContents\<close>. The handlers
  themselves run in later turns of the event loop: \<open>ready-to-show\<close> calls
  \<open>showCaptionWindow\<close>, \<open>closed\<close> is \<open>on_closed\<close> below.
\<close>

definition handler_calls :: "call list" where
  "handler_calls =
     [On ''ready-to-show'', On ''show'', On ''hide'', On ''focus'', On ''blur'',
      On ''closed'', On ''did-finish-load'', On ''did-fail-load'']"

text \<open>
  \<open>await this.captionWindow.loadURL(...)\<close> or \<open>loadFile(...)\<close> inside its own \<open>try\<close>: a load
  error is thrown again as a new \<open>Error\<close>.
\<close>

definition load_caption :: "unit prog" where
  "load_caption =
     try_catch (calls [LoadContent])
       (\<lambda>loadError. throw (new_Error (''Failed to load caption content: '' @ message loadError)))"

text \<open>The \<open>try\<close> block of \<open>createCaptionWindow\<close>.\<close>

definition createCaptionWindow_try :: "unit prog" where
  "createCaptionWindow_try =
     then_prog getPrimaryDisplay
       (then_prog new_BrowserWindow
          (then_prog (calls (SetAlwaysOnTop # handler_calls)) load_caption))"

text \<open>Its \<open>catch\<close> block: close the window if there is one, clear the handle, throw again.\<close>

definition createCaptionWindow_catch :: "js_error \<Rightarrow> unit prog" where
  "createCaptionWindow_catch error =
     then_prog
       (if_window
          (then_prog (try_catch (calls [Close]) (\<lambda>closeError. ret ()))
             (modify (\<lambda>s. s\<lparr>captionWindow := None\<rparr>)))
          (ret ()))
       (throw error)"

definition createCaptionWindow :: "unit prog" where
  "createCaptionWindow =
     if_window
       (then_prog showCaptionWindow (ret ()))
       (try_catch createCaptionWindow_try createCaptionWindow_catch)"

text \<open>The handler of the window event \<open>closed\<close>.\<close>

definition on_closed :: "main_state \<Rightarrow> main_state" where
  "on_closed s = s\<lparr>captionWindow := None, captionEnabled := False\<rparr>"

subsection \<open>toggleCaptionOverlay\<close>

record final_state =
  fs_enabled :: bool
  windowExists :: bool
  windowVisible :: bool
  fs_alwaysOnTop :: bool

text \<open>
  The two shapes of the returned object: \<open>{success: true, enabled, state}\<close> and
  \<open>{success: false, error, stack}\<close>.
\<close>

datatype toggle_result =
    Success bool final_state
  | Failure string string

text \<open>\<open>this.captionWindow ? this.captionWindow.c() : false\<close>\<close>

definition query :: "call \<Rightarrow> (window \<Rightarrow> bool) \<Rightarrow> bool prog" where
  "query c field = if_window (bind_prog (win_call c) (\<lambda>w. ret (field w))) (ret False)"

definition toggle_steps :: "bool \<Rightarrow> unit prog" where
  "toggle_steps enabled =
     (if enabled
      then if_window (then_prog showCaptionWindow (ret ())) createCaptionWindow
      else if_window (then_prog hideCaptionWindow (ret ())) (ret ()))"

definition final_verification :: "toggle_result prog" where
  "final_verification =
     bind_prog (query IsVisible visible) (\<lambda>vis.
       bind_prog (query IsAlwaysOnTop alwaysOnTop) (\<lambda>top.
         (\<lambda>s. ret (Success (captionEnabled s)
                    \<lparr>fs_enabled = captionEnabled s,
                     windowExists = (captionWindow s \<noteq> None),
                     windowVisible = vis,
                     fs_alwaysOnTop = top\<rparr>) s)))"

definition emergency_cleanup :: "unit prog" where
  "emergency_cleanup =
     try_catch (if_window (calls [Hide]) (ret ())) (\<lambda>cleanupError. ret ())"

definition toggleCaptionOverlay :: "bool \<Rightarrow> toggle_result prog" where
  "toggleCaptionOverlay enabled =
     try_catch
       (then_prog (toggle_steps enabled)
          (then_prog (modify (\<lambda>s. s\<lparr>captionEnabled := enabled\<rparr>))
             final_verification))
       (\<lambda>error. then_prog emergency_cleanup (ret (Failure (message error) (stack error))))"

subsection \<open>destroyCaptionWindow\<close>

definition destroyCaptionWindow :: "unit prog" where
  "destroyCaptionWindow =
     try_catch
       (then_prog
          (if_window
             (then_prog (calls [GetBounds, IsVisible, Hide, Close])
                (modify (\<lambda>s. s\<lparr>captionWindow := None\<rparr>)))
             (ret ()))
          (modify (\<lambda>s. s\<lparr>captionEnabled := False\<rparr>)))
       (\<lambda>error.
          then_prog (modify (\<lambda>s. s\<lparr>captionWindow := None\<rparr>))
            (modify (\<lambda>s. s\<lparr>captionEnabled := False\<rparr>)))"

subsection \<open>updateCaptionText\<close>

text \<open>The object literal \<open>bilingual_data\<close>; \<open>now\<close> is the reading of \<open>Date.now()\<close>.\<close>

definition make_bilingual_data :: "jsobj \<Rightarrow> int \<Rightarrow> bilingual_data" where
  "make_bilingual_data data now =
     \<lparr>original = js_or (js_get data ''original'') (js_or (js_get data ''text'') (JStr '''')),
      bd_translation =
        js_or (js_get data ''translation'') (js_or (js_get data ''translated'') (JStr '''')),
      bd_confidence =
        (if is_number (js_get data ''confidence'') then js_get data ''confidence'' else JNum 0),
      bd_sourceLanguage =
        js_or (js_get data ''sourceLanguage'')
          (js_or (js_get data ''source_language'') (JStr ''auto'')),
      bd_targetLanguage =
        js_or (js_get data ''targetLanguage'')
          (js_or (js_get data ''target_language'') (JStr ''en'')),
      fromTranscription = js_or (js_get data ''fromTranscription'') (JBool True),
      isRealTime = js_or (js_get data ''isRealTime'') (JBool True),
      timestamp = now\<rparr>"

text \<open>\<open>this.captionWindow.webContents.send('update-live-caption', d)\<close>\<close>

definition send :: "bilingual_data \<Rightarrow> unit prog" where
  "send d =
     then_prog (win_call Send)
       (modify (\<lambda>s. s\<lparr>captionWindow :=
                         map_option (\<lambda>w. w\<lparr>received := received w @ [d]\<rparr>) (captionWindow s)\<rparr>))"

text \<open>
  \<open>isDestroyed()\<close> is the one window method that is safe on a destroyed window; it reads
  the flag and does not throw.
\<close>

definition updateCaptionText :: "jsobj \<Rightarrow> int \<Rightarrow> unit prog" where
  "updateCaptionText data now = (\<lambda>s.
     case captionWindow s of
       None \<Rightarrow> ret () s
     | Some w \<Rightarrow>
         if destroyed w then ret () s
         else try_catch (send (make_bilingual_data data now)) (\<lambda>error. ret ()) s)"

text \<open>
  The declared type of the optional flags \<open>fromTranscription\<close> and \<open>isRealTime\<close> of the
  caption object: a boolean, or missing.
\<close>

fun optional_boolean :: "jsval \<Rightarrow> bool" where
  "optional_boolean JUndefined = True"
| "optional_boolean (JBool b) = True"
| "optional_boolean v = False"

subsection \<open>Concrete main-process states\<close>

definition refused :: js_error where
  "refused = Error ''ERR_CONNECTION_REFUSED'' ''Error: ERR_CONNECTION_REFUSED''"

definition object_destroyed :: js_error where
  "object_destroyed =
     Error ''Object has been destroyed'' ''TypeError: Object has been destroyed''"

text \<open>No window yet; the twelfth platform call, the load of the caption page, will throw.\<close>

definition load_fails :: main_state where
  "load_fails =
     \<lparr>captionWindow = None, captionEnabled = False, platform = Linux,
      faults = [None, None, None, None, None, None, None, None, None, None, None,
                Some refused],
      trace = []\<rparr>"

text \<open>
  The handle still holds a window that has been destroyed: each of its methods throws.
  The overlay is off.
\<close>

definition stale_handle :: main_state where
  "stale_handle =
     \<lparr>captionWindow = Some (fresh_window\<lparr>destroyed := True\<rparr>), captionEnabled = False,
      platform = Linux,
      faults = [Some object_destroyed, Some object_destroyed, Some object_destroyed],
      trace = []\<rparr>"

text \<open>
  A caption object with only its text, one that sets both flags to \<open>false\<close>, and one
  that sets them to truthy values that are not booleans.
\<close>

definition bare_caption :: jsobj where
  "bare_caption = [(''original'', JStr ''Hi'')]"

definition flags_off_caption :: jsobj where
  "flags_off_caption =
     [(''original'', JStr ''Hi''), (''fromTranscription'', JBool False),
      (''isRealTime'', JBool False)]"

definition truthy_flags_caption :: jsobj where
  "truthy_flags_caption =
     [(''original'', JStr ''Hi''), (''fromTranscription'', JStr ''yes''),
      (''isRealTime'', JNum 5)]"

section \<open>The renderer (App component)\<close>

subsection \<open>Messages on the audio WebSocket\<close>

text \<open>
  The messages are JSON objects. Their fields are typed as the handler uses them (text
  fields are strings, \<open>confidence\<close> is a number) and every field may be missing (\<open>None\<close>);
  \<open>polisher_applied\<close> and \<open>is_enhancement\<close> are read for their truthiness only, so a
  missing flag is \<open>False\<close>.
\<close>

record translation_obj =
  tr_text :: "string option"
  source_language :: "string option"
  target_language :: "string option"
  polisher_applied :: bool

record result_obj =
  transcript :: "string option"
  result_confidence :: "rat option"
  language_detected :: "string option"
  result_translation :: "translation_obj option"

text \<open>
  \<open>Transcription\<close> is the message type \<open>transcription\<close>, which carries the result fields
  at its top level; \<open>TranscriptionResult\<close> is \<open>transcription_result\<close> with its
  \<open>is_enhancement\<close> flag and its \<open>data\<close>; \<open>AudioChunk\<close> carries
  \<open>audio_metrics.volume_percent\<close>. \<open>Unparseable\<close> is a frame on which \<open>JSON.parse\<close>
  throws, \<open>OtherMessage\<close> any type that does not touch the caption state.
\<close>

datatype ws_message =
    Transcription result_obj
  | TranscriptionResult bool result_obj
  | AudioChunk rat
  | AudioSessionStarted
  | AudioSessionEnded
  | ErrorMessage
  | OtherMessage
  | Unparseable

subsection \<open>Component state\<close>

text \<open>
  The \<open>useState\<close> cells and \<open>useRef\<close> cells of \<open>App\<close> that the message handler touches.
  \<open>translation\<close> can hold \<open>undefined\<close> (\<open>None\<close>), since an enhancement stores
  \<open>result.translation.text\<close> unchecked. The badge text \<open>detectedLanguage\<close> is display only
  and left out. \<open>hasElectronAPI\<close> says whether \<open>window.electronAPI.updateCaptionText\<close>
  exists.
\<close>

record app_state =
  transcription :: string
  translation :: "string option"
  confidence :: rat
  translationConfidence :: rat
  wordsProcessed :: nat
  isTranscribing :: bool
  isListening :: bool
  sourceLanguage :: string
  targetLanguage :: string
  audioSource :: string
  lastTranscriptionUpdate :: int
  lastLanguageUpdate :: int
  hasElectronAPI :: bool

definition LANGUAGE_UPDATE_THROTTLE :: int where
  "LANGUAGE_UPDATE_THROTTLE = 425"

definition AGENT_UPDATE_THROTTLE :: int where
  "AGENT_UPDATE_THROTTLE = 85"

definition TRANSCRIPTION_UPDATE_THROTTLE :: int where
  "TRANSCRIPTION_UPDATE_THROTTLE = 40"

text \<open>The initial values given to \<open>useState\<close> and \<open>useRef\<close>, with the Electron API present.\<close>

definition initial_app :: app_state where
  "initial_app =
     \<lparr>transcription = '''', translation = Some '''', confidence = 0,
      translationConfidence = 0, wordsProcessed = 0, isTranscribing = False,
      isListening = False, sourceLanguage = ''en'', targetLanguage = ''en'',
      audioSource = ''microphone'', lastTranscriptionUpdate = 0, lastLanguageUpdate = 0,
      hasElectronAPI = True\<rparr>"

subsection \<open>Strings\<close>

text \<open>
  \<open>String.prototype.trim\<close> on the ASCII white space (space, tab, line feed, vertical
  tab, form feed, carriage return). Strings are lists of 8-bit characters here, and the
  white space beyond ASCII that \<open>trim\<close> strips as well (U+00A0, U+FEFF, U+2028, U+2029
  and the Unicode spaces) is not covered. \<open>s.split(' ').length\<close> is the number of
  spaces plus one.
\<close>

definition js_whitespace :: "char \<Rightarrow> bool" where
  "js_whitespace c =
     (c \<in> set [CHR '' '', CHR 0x09, CHR 0x0A, CHR 0x0B, CHR 0x0C, CHR 0x0D])"

definition js_trim :: "string \<Rightarrow> string" where
  "js_trim s = rev (dropWhile js_whitespace (rev (dropWhile js_whitespace s)))"

definition word_count :: "string \<Rightarrow> nat" where
  "word_count s = length (filter (\<lambda>c. c = CHR '' '') s) + 1"

definition opt_str :: "string option \<Rightarrow> jsval" where
  "opt_str x = (case x of None \<Rightarrow> JUndefined | Some s \<Rightarrow> JStr s)"

subsection \<open>updateCaptionOverlay\<close>

text \<open>
  The object handed to \<open>window.electronAPI.updateCaptionText\<close>, when that function exists:
  it travels over IPC to \<open>updateCaptionText\<close> of the main process. \<open>lang\<close> is the
  \<open>sourceLanguage\<close> seen by the callback.
\<close>

definition caption_payload :: "jsval \<Rightarrow> jsval \<Rightarrow> rat \<Rightarrow> string \<Rightarrow> int \<Rightarrow> jsobj" where
  "caption_payload original_text translated conf lang now =
     [(''original'', original_text),
      (''translation'', js_or translated (JStr '''')),
      (''confidence'', JNum conf),
      (''fromTranscription'', JBool True),
      (''timestamp'', JNum (of_int now)),
      (''language'', js_or (JStr lang) (JStr ''en'')),
      (''isRealTime'', JBool True)]"

definition updateCaptionOverlay ::
  "jsval \<Rightarrow> jsval \<Rightarrow> rat \<Rightarrow> string \<Rightarrow> int \<Rightarrow> app_state \<Rightarrow> jsobj option" where
  "updateCaptionOverlay original_text translated conf lang now st =
     (if hasElectronAPI st then Some (caption_payload original_text translated conf lang now)
      else None)"

subsection \<open>The message handler\<close>

text \<open>
  \<open>result.confidence ? result.confidence * 100 : 0\<close>. The product is taken over the
  rationals; the code multiplies IEEE doubles, which gives the same number where the
  product is a double (0.92 and 0.9 give 92 and 90) and a neighbour of it elsewhere.
\<close>

definition confidence_percent :: "rat option \<Rightarrow> rat" where
  "confidence_percent c =
     (case c of None \<Rightarrow> 0 | Some x \<Rightarrow> if x = 0 then 0 else x * 100)"

text \<open>\<open>result.translation && result.translation.text\<close>: the text when it is truthy.\<close>

definition translation_text :: "result_obj \<Rightarrow> string option" where
  "translation_text r =
     (case result_translation r of
        None \<Rightarrow> None
      | Some tr \<Rightarrow> (case tr_text tr of None \<Rightarrow> None | Some t \<Rightarrow> if t = [] then None else Some t))"

text \<open>\<open>result.translation.polisher_applied\<close> as a condition.\<close>

definition polisher_flag :: "result_obj \<Rightarrow> bool" where
  "polisher_flag r =
     (case result_translation r of None \<Rightarrow> False | Some tr \<Rightarrow> polisher_applied tr)"

text \<open>The throttle test \<open>now - lastTranscriptionUpdate.current > TRANSCRIPTION_UPDATE_THROTTLE\<close>.\<close>

definition gate_open :: "app_state \<Rightarrow> int \<Rightarrow> bool" where
  "gate_open st now = (now - lastTranscriptionUpdate st > TRANSCRIPTION_UPDATE_THROTTLE)"

text \<open>The branch for \<open>data.type === 'transcription'\<close>.\<close>

definition on_transcription ::
  "result_obj \<Rightarrow> string \<Rightarrow> int \<Rightarrow> app_state \<Rightarrow> app_state \<times> jsobj option" where
  "on_transcription d lang now st =
     (if gate_open st now then
        (case (case transcript d of
                 None \<Rightarrow> (st, None)
               | Some t \<Rightarrow>
                   if js_trim t = [] then (st, None)
                   else
                     (let c = confidence_percent (result_confidence d);
                          st1 = st\<lparr>transcription := t, confidence := c\<rparr>
                      in case translation_text d of
                           Some tx \<Rightarrow>
                             (st1\<lparr>translation := Some tx, translationConfidence := 85,
                                  wordsProcessed := word_count t\<rparr>,
                              updateCaptionOverlay (JStr t) (JStr tx) c lang now st)
                         | None \<Rightarrow>
                             (st1\<lparr>translation := Some '''', translationConfidence := 0,
                                  wordsProcessed := word_count t\<rparr>,
                              updateCaptionOverlay (JStr t) (JStr '''') c lang now st)))
         of (st2, out) \<Rightarrow> (st2\<lparr>lastTranscriptionUpdate := now\<rparr>, out))
      else (st, None))"

text \<open>
  The branch for \<open>data.type === 'transcription_result'\<close>: an enhancement that carries a
  translation object is applied at once and returns; everything else goes through the
  throttle test and ends with \<open>setIsTranscribing(false)\<close>.
\<close>

definition on_enhancement ::
  "result_obj \<Rightarrow> translation_obj \<Rightarrow> string \<Rightarrow> int \<Rightarrow> app_state \<Rightarrow> app_state \<times> jsobj option"
  where
  "on_enhancement r tr lang now st =
     (st\<lparr>translation := tr_text tr, translationConfidence := 90\<rparr>,
      updateCaptionOverlay (opt_str (transcript r)) (opt_str (tr_text tr))
        (confidence_percent (result_confidence r)) lang now st)"

definition on_regular_result ::
  "result_obj \<Rightarrow> string \<Rightarrow> int \<Rightarrow> app_state \<Rightarrow> app_state \<times> jsobj option" where
  "on_regular_result r lang now st =
     (case (if gate_open st now then
              (case (case transcript r of
                       None \<Rightarrow> (st, None)
                     | Some t \<Rightarrow>
                         if js_trim t = [] then (st, None)
                         else
                           (let c = confidence_percent (result_confidence r);
                                st1 = st\<lparr>transcription := t, confidence := c\<rparr>
                            in case translation_text r of
                                 Some tx \<Rightarrow>
                                   (st1\<lparr>translation := Some tx,
                                        translationConfidence :=
                                          (if polisher_flag r then 85 else 75),
                                        wordsProcessed := word_count t\<rparr>,
                                    updateCaptionOverlay (JStr t) (JStr tx) c lang now st)
                               | None \<Rightarrow>
                                   (st1\<lparr>translation := Some '''', translationConfidence := 0,
                                        wordsProcessed := word_count t\<rparr>,
                                    updateCaptionOverlay (JStr t) (JStr '''') c lang now st)))
               of (st2, out) \<Rightarrow> (st2\<lparr>lastTranscriptionUpdate := now\<rparr>, out))
            else (st, None))
      of (st3, out) \<Rightarrow> (st3\<lparr>isTranscribing := False\<rparr>, out))"

definition on_transcription_result ::
  "bool \<Rightarrow> result_obj \<Rightarrow> string \<Rightarrow> int \<Rightarrow> app_state \<Rightarrow> app_state \<times> jsobj option" where
  "on_transcription_result is_enhancement r lang now st =
     (case (is_enhancement, result_translation r) of
        (True, Some tr) \<Rightarrow> on_enhancement r tr lang now st
      | _ \<Rightarrow> on_regular_result r lang now st)"

text \<open>
  \<open>audioWs.onmessage\<close>: the new component state and the caption object sent towards the
  overlay, if any. \<open>now\<close> is the reading of \<open>Date.now()\<close> in the handler.
\<close>

fun onmessage :: "ws_message \<Rightarrow> string \<Rightarrow> int \<Rightarrow> app_state \<Rightarrow> app_state \<times> jsobj option" where
  "onmessage (Transcription d) lang now st = on_transcription d lang now st"
| "onmessage (TranscriptionResult e r) lang now st = on_transcription_result e r lang now st"
| "onmessage (AudioChunk volume_percent) lang now st =
     (if volume_percent > 10 \<and> now - lastLanguageUpdate st > LANGUAGE_UPDATE_THROTTLE
      then (st\<lparr>lastLanguageUpdate := now\<rparr>, None) else (st, None))"
| "onmessage AudioSessionStarted lang now st = (st\<lparr>isListening := True\<rparr>, None)"
| "onmessage AudioSessionEnded lang now st = (st\<lparr>isListening := False\<rparr>, None)"
| "onmessage ErrorMessage lang now st = (st\<lparr>isListening := False\<rparr>, None)"
| "onmessage OtherMessage lang now st = (st, None)"
| "onmessage Unparseable lang now st = (st, None)"

text \<open>
  The events of the transcription category are the ones that reach the throttle test:
  every \<open>transcription\<close> message and every \<open>transcription_result\<close> that is not applied
  as an enhancement.
\<close>

fun transcription_category :: "ws_message \<Rightarrow> bool" where
  "transcription_category (Transcription d) = True"
| "transcription_category (TranscriptionResult e r) = (\<not> (e \<and> result_translation r \<noteq> None))"
| "transcription_category m = False"

text \<open>The state after a sequence of messages, each with the clock reading at its arrival.\<close>

fun run_messages :: "(ws_message \<times> int) list \<Rightarrow> string \<Rightarrow> app_state \<Rightarrow> app_state" where
  "run_messages [] lang st = st"
| "run_messages ((m, now) # evs) lang st = run_messages evs lang (fst (onmessage m lang now st))"

text \<open>The clock readings of the transcription events that passed the throttle test, in order.\<close>

fun accepted_times :: "(ws_message \<times> int) list \<Rightarrow> string \<Rightarrow> app_state \<Rightarrow> int list" where
  "accepted_times [] lang st = []"
| "accepted_times ((m, now) # evs) lang st =
     (if transcription_category m \<and> gate_open st now then [now] else [])
       @ accepted_times evs lang (fst (onmessage m lang now st))"

subsection \<open>start_capture and the language selectors\<close>

record audio_config =
  sample_rate :: nat
  channels :: nat
  chunk_size :: nat
  buffer_duration :: rat
  audio_source :: string
  ac_source_language :: string
  ac_target_language :: string

text \<open>The \<open>audio_config\<close> that \<open>toggleListening\<close> puts into the \<open>start_capture\<close> message.\<close>

definition start_capture_config :: "app_state \<Rightarrow> audio_config" where
  "start_capture_config st =
     \<lparr>sample_rate = 16000,
      channels = (if audioSource st = ''system'' then 2 else 1),
      chunk_size = 1024,
      buffer_duration = 1,
      audio_source = audioSource st,
      ac_source_language = sourceLanguage st,
      ac_target_language = targetLanguage st\<rparr>"

definition handleTargetLanguageChange :: "string \<Rightarrow> app_state \<Rightarrow> app_state" where
  "handleTargetLanguageChange v st = st\<lparr>targetLanguage := v\<rparr>"

section \<open>From the WebSocket to the overlay\<close>

text \<open>
  One message through both processes: the handler of the renderer, then, if it sent a
  caption object, \<open>updateCaptionText\<close> in the main process. Both read the clock as \<open>now\<close>.
\<close>

record system =
  app_st :: app_state
  main_st :: main_state

definition deliver :: "ws_message \<Rightarrow> string \<Rightarrow> int \<Rightarrow> system \<Rightarrow> system" where
  "deliver m lang now sys =
     (case onmessage m lang now (app_st sys) of
        (a, None) \<Rightarrow> sys\<lparr>app_st := a\<rparr>
      | (a, Some payload) \<Rightarrow>
          sys\<lparr>app_st := a, main_st := snd (updateCaptionText payload now (main_st sys))\<rparr>)"

text \<open>The caption state the overlay window received last.\<close>

definition shown :: "system \<Rightarrow> bilingual_data option" where
  "shown sys =
     (case captionWindow (main_st sys) of
        None \<Rightarrow> None
      | Some w \<Rightarrow> if received w = [] then None else Some (last (received w)))"

subsection \<open>Concrete states and messages\<close>

text \<open>The overlay is enabled: a live, visible window, and no platform call throws.\<close>

definition overlay_on :: main_state where
  "overlay_on =
     \<lparr>captionWindow = Some (fresh_window\<lparr>visible := True\<rparr>), captionEnabled = True,
      platform = Linux, faults = [], trace = []\<rparr>"

definition no_overlay :: main_state where
  "no_overlay =
     \<lparr>captionWindow = None, captionEnabled = False, platform = Linux, faults = [],
      trace = []\<rparr>"

definition session_en_es :: system where
  "session_en_es =
     \<lparr>app_st = handleTargetLanguageChange ''es'' initial_app, main_st = overlay_on\<rparr>"

definition plain_result :: "string \<Rightarrow> rat \<Rightarrow> result_obj" where
  "plain_result t c =
     \<lparr>transcript = Some t, result_confidence = Some c, language_detected = None,
      result_translation = None\<rparr>"

definition translated_result :: "string \<Rightarrow> rat \<Rightarrow> string \<Rightarrow> result_obj" where
  "translated_result t c tx =
     \<lparr>transcript = Some t, result_confidence = Some c, language_detected = None,
      result_translation =
        Some \<lparr>tr_text = Some tx, source_language = None, target_language = None,
              polisher_applied = True\<rparr>\<rparr>"

definition session_start :: system where
  "session_start = \<lparr>app_st = initial_app, main_st = overlay_on\<rparr>"

definition hola_event :: ws_message where
  "hola_event = TranscriptionResult False (plain_result ''Hola'' (9 / 10))"

definition adios_event :: ws_message where
  "adios_event = TranscriptionResult False (plain_result ''Adios'' (9 / 10))"

definition hello_enhancement :: ws_message where
  "hello_enhancement = TranscriptionResult True (translated_result ''Hola'' (9 / 10) ''Hello'')"

definition after_hola :: system where
  "after_hola = deliver hola_event ''en'' 100 session_start"

definition after_adios :: system where
  "after_adios = deliver adios_event ''en'' 200 after_hola"

definition three_events :: "(ws_message \<times> int) list" where
  "three_events =
     [(Transcription (plain_result ''one'' 1), 1000),
      (Transcription (plain_result ''two'' 1), 1040),
      (Transcription (plain_result ''three'' 1), 1041)]"

definition after_one :: app_state where
  "after_one = fst (onmessage (Transcription (plain_result ''one'' 1)) ''en'' 1000 initial_app)"

definition hello_en_es :: ws_message where
  "hello_en_es =
     TranscriptionResult False
       \<lparr>transcript = Some ''Hello'', result_confidence = Some (92 / 100),
        language_detected = Some ''en'',
        result_translation =
          Some \<lparr>tr_text = Some ''Hola'', source_language = Some ''en'',
                target_language = Some ''es'', polisher_applied = True\<rparr>\<rparr>"

section \<open>The audio segmenter\<close>













section \<open>Properties of the main process\<close>

lemma try_catch_total:
  assumes "\<And>e s. \<exists>x s'. h e s = (Inr x, s')"
  shows "\<exists>x s'. try_catch m h s = (Inr x, s')"
proof (cases "m s")
  case (Pair r s1)
  show ?thesis
  proof (cases r)
    case (Inl e)
    with Pair assms [of e s1] show ?thesis by (simp add: try_catch_def)
  next
    case (Inr x)
    with Pair show ?thesis by (simp add: try_catch_def)
  qed
qed

lemma win_call_frame:
  assumes "win_call c s = (r, s')"
  shows "captionEnabled s' = captionEnabled s \<and> platform s' = platform s
         \<and> (captionWindow s' = None \<longleftrightarrow> captionWindow s = None)"
  using assms
  by (auto simp: win_call_def next_fault_def split: option.splits list.splits prod.splits)

lemma calls_frame:
  "calls cs s = (r, s') \<Longrightarrow>
     captionEnabled s' = captionEnabled s \<and> platform s' = platform s
     \<and> (captionWindow s' = None \<longleftrightarrow> captionWindow s = None)"
proof (induction cs arbitrary: s)
  case Nil
  then show ?case by (simp add: ret_def)
next
  case (Cons c cs)
  obtain r1 s1 where w: "win_call c s = (r1, s1)" by (cases "win_call c s")
  note f1 = win_call_frame [OF w]
  show ?case
  proof (cases r1)
    case (Inl e)
    with Cons.prems w f1 show ?thesis by (simp add: then_prog_def bind_prog_def)
  next
    case (Inr x)
    with Cons.prems w have "calls cs s1 = (r, s')" by (simp add: then_prog_def bind_prog_def)
    from Cons.IH [OF this] f1 show ?thesis by simp
  qed
qed

lemma showCaptionWindow_frame:
  "\<exists>b s'. showCaptionWindow s = (Inr b, s') \<and> captionEnabled s' = captionEnabled s
      \<and> (captionWindow s' = None \<longleftrightarrow> captionWindow s = None)"
proof (cases "captionWindow s")
  case None
  then show ?thesis by (auto simp: showCaptionWindow_def if_window_def ret_def)
next
  case (Some w)
  obtain r s1 where c: "calls (show_calls (platform s)) s = (r, s1)"
    by (cases "calls (show_calls (platform s)) s")
  from calls_frame [OF c] Some c show ?thesis
    by (cases r) (auto simp: showCaptionWindow_def if_window_def try_catch_def
        then_prog_def bind_prog_def ret_def)
qed

lemma hideCaptionWindow_frame:
  "\<exists>b s'. hideCaptionWindow s = (Inr b, s') \<and> captionEnabled s' = captionEnabled s
      \<and> (captionWindow s' = None \<longleftrightarrow> captionWindow s = None)"
proof (cases "captionWindow s")
  case None
  then show ?thesis by (auto simp: hideCaptionWindow_def if_window_def ret_def)
next
  case (Some w)
  obtain r s1 where c: "calls [GetBounds, IsVisible, Hide, IsVisible] s = (r, s1)"
    by (cases "calls [GetBounds, IsVisible, Hide, IsVisible] s")
  from calls_frame [OF c] Some c show ?thesis
    by (cases r) (auto simp: hideCaptionWindow_def if_window_def try_catch_def
        then_prog_def bind_prog_def ret_def simp del: calls.simps)
qed

lemma emergency_cleanup_total:
  "\<exists>s'. emergency_cleanup s = (Inr (), s') \<and> captionEnabled s' = captionEnabled s
     \<and> (captionWindow s' = None \<longleftrightarrow> captionWindow s = None)"
proof -
  obtain r s1 where c: "calls [Hide] s = (r, s1)" by (cases "calls [Hide] s")
  from calls_frame [OF c] c show ?thesis
    by (cases r; cases "captionWindow s")
      (simp_all add: emergency_cleanup_def if_window_def try_catch_def ret_def del: calls.simps)
qed

lemma toggleCaptionOverlay_never_throws:
  "\<exists>r s'. toggleCaptionOverlay enabled s = (Inr r, s')"
  unfolding toggleCaptionOverlay_def
proof (rule try_catch_total)
  fix e s
  from emergency_cleanup_total [of s] obtain s1 where "emergency_cleanup s = (Inr (), s1)"
    by blast
  then show "\<exists>x s'. then_prog emergency_cleanup (ret (Failure (message e) (stack e))) s = (Inr x, s')"
    by (simp add: then_prog_def bind_prog_def ret_def)
qed

lemma createCaptionWindow_catch_result:
  "\<exists>s'. createCaptionWindow_catch e s = (Inl e, s') \<and> captionWindow s' = None
     \<and> captionEnabled s' = captionEnabled s
     \<and> (captionWindow s \<noteq> None \<longrightarrow> (\<exists>ok. last (trace s') = (Close, ok)))"
  by (cases "captionWindow s")
    (auto simp: createCaptionWindow_catch_def if_window_def then_prog_def bind_prog_def
      try_catch_def ret_def throw_def modify_def win_call_def next_fault_def
      split: list.splits option.splits)

lemma getPrimaryDisplay_frame:
  "getPrimaryDisplay s = (r, s') \<Longrightarrow> captionEnabled s' = captionEnabled s"
  by (auto simp: getPrimaryDisplay_def next_fault_def split: list.splits option.splits)

lemma new_BrowserWindow_frame:
  "new_BrowserWindow s = (r, s') \<Longrightarrow> captionEnabled s' = captionEnabled s"
  by (auto simp: new_BrowserWindow_def next_fault_def split: list.splits option.splits)

lemma then_prog_frame:
  assumes "\<And>r s'. m s = (r, s') \<Longrightarrow> captionEnabled s' = captionEnabled s"
    and "\<And>s1 r s'. n s1 = (r, s') \<Longrightarrow> captionEnabled s' = captionEnabled s1"
    and "then_prog m n s = (r, s')"
  shows "captionEnabled s' = captionEnabled s"
proof (cases "m s")
  case (Pair r1 s1)
  show ?thesis
  proof (cases r1)
    case (Inl e)
    with Pair assms(1,3) show ?thesis by (auto simp: then_prog_def bind_prog_def)
  next
    case (Inr x)
    with Pair assms(3) have "n s1 = (r, s')" by (simp add: then_prog_def bind_prog_def)
    with assms(1) [OF Pair] assms(2) show ?thesis by metis
  qed
qed

lemma load_caption_frame:
  "load_caption s = (r, s') \<Longrightarrow> captionEnabled s' = captionEnabled s"
proof -
  assume a: "load_caption s = (r, s')"
  obtain r1 s1 where c: "calls [LoadContent] s = (r1, s1)" by (cases "calls [LoadContent] s")
  from calls_frame [OF c] c a show ?thesis
    by (cases r1) (auto simp: load_caption_def try_catch_def throw_def simp del: calls.simps)
qed

lemma createCaptionWindow_try_frame:
  "createCaptionWindow_try s = (r, s') \<Longrightarrow> captionEnabled s' = captionEnabled s"
  unfolding createCaptionWindow_try_def
  apply (erule then_prog_frame [rotated 2])
   apply (erule getPrimaryDisplay_frame)
  apply (erule then_prog_frame [rotated 2])
   apply (erule new_BrowserWindow_frame)
  apply (erule then_prog_frame [rotated 2])
   apply (drule calls_frame, simp)
  apply (erule load_caption_frame)
  done

text \<open>
  C10. Every call to \<open>destroyCaptionWindow\<close> returns without throwing and leaves the
  handle null and the flag false, whatever the platform calls do (the \<open>catch\<close> block
  forces the cleanup); without a window it makes no platform call and only clears the
  flag.
\<close>

theorem destroyCaptionWindow_clears:
  "(\<exists>s'. destroyCaptionWindow s = (Inr (), s') \<and> captionWindow s' = None
          \<and> captionEnabled s' = False)
   \<and> destroyCaptionWindow (s\<lparr>captionWindow := None\<rparr>)
       = (Inr (), s\<lparr>captionWindow := None, captionEnabled := False\<rparr>)"
  by (auto simp: destroyCaptionWindow_def try_catch_def then_prog_def bind_prog_def
      modify_def if_window_def ret_def split: prod.splits sum.splits option.splits)

text \<open>
  C5. When the overlay is enabled without a window and the \<open>try\<close> block of
  \<open>createCaptionWindow\<close> throws (the allocation, the set-up or the load fails), the call
  does not throw: it returns the failure object with the message and the stack of the
  error, the handle is null and the flag is as before; if a window had been allocated,
  the last platform call was the attempt to close it.
\<close>

theorem toggleCaptionOverlay_create_failure:
  assumes "captionWindow s = None" and "createCaptionWindow_try s = (Inl e, s1)"
  shows "\<exists>s'. toggleCaptionOverlay True s = (Inr (Failure (message e) (stack e)), s')
           \<and> captionWindow s' = None \<and> captionEnabled s' = captionEnabled s
           \<and> (captionWindow s1 \<noteq> None \<longrightarrow> (\<exists>ok. last (trace s') = (Close, ok)))"
proof -
  from createCaptionWindow_catch_result [of e s1] obtain s2 where
    c: "createCaptionWindow_catch e s1 = (Inl e, s2)" "captionWindow s2 = None"
       "captionEnabled s2 = captionEnabled s1"
       "captionWindow s1 \<noteq> None \<longrightarrow> (\<exists>ok. last (trace s2) = (Close, ok))"
    by blast
  from assms c(1) have cr: "createCaptionWindow s = (Inl e, s2)"
    by (simp add: createCaptionWindow_def if_window_def try_catch_def)
  have "toggleCaptionOverlay True s = (Inr (Failure (message e) (stack e)), s2)"
    using assms(1) cr c(2)
    by (simp add: toggleCaptionOverlay_def toggle_steps_def try_catch_def then_prog_def
        bind_prog_def if_window_def emergency_cleanup_def ret_def)
  with c createCaptionWindow_try_frame [OF assms(2)] show ?thesis by simp
qed

lemmas prog_defs = ret_def throw_def bind_prog_def then_prog_def try_catch_def modify_def
  if_window_def

lemmas platform_defs = win_call_def next_fault_def getPrimaryDisplay_def new_BrowserWindow_def

lemma load_fails_try:
  "fst (createCaptionWindow_try load_fails)
     = Inl (new_Error ''Failed to load caption content: ERR_CONNECTION_REFUSED'')"
  by (simp add: createCaptionWindow_try_def load_caption_def handler_calls_def load_fails_def
      refused_def prog_defs platform_defs)

lemma load_fails_window:
  "captionWindow (snd (createCaptionWindow_try load_fails)) \<noteq> None"
  by (simp add: createCaptionWindow_try_def load_caption_def handler_calls_def load_fails_def
      refused_def prog_defs platform_defs)

text \<open>
  The load of the caption page fails after the window has been allocated.
\<close>

theorem toggleCaptionOverlay_create_failure_witness:
  "captionWindow load_fails = None
   \<and> fst (createCaptionWindow_try load_fails)
       = Inl (new_Error ''Failed to load caption content: ERR_CONNECTION_REFUSED'')
   \<and> fst (toggleCaptionOverlay True load_fails)
       = Inr (Failure ''Failed to load caption content: ERR_CONNECTION_REFUSED''
                ''Error: Failed to load caption content: ERR_CONNECTION_REFUSED'')
   \<and> captionWindow (snd (toggleCaptionOverlay True load_fails)) = None
   \<and> captionEnabled (snd (toggleCaptionOverlay True load_fails)) = False
   \<and> fst (last (trace (snd (toggleCaptionOverlay True load_fails)))) = Close"
proof -
  have h1: "captionWindow load_fails = None" by (simp add: load_fails_def)
  have h2: "createCaptionWindow_try load_fails
      = (Inl (new_Error ''Failed to load caption content: ERR_CONNECTION_REFUSED''),
         snd (createCaptionWindow_try load_fails))"
    using load_fails_try by (metis prod.collapse)
  have h3: "captionEnabled load_fails = False" by (simp add: load_fails_def)
  from toggleCaptionOverlay_create_failure [OF h1 h2] load_fails_window h1 h3 load_fails_try
  show ?thesis by (auto simp: new_Error_def)
qed

text \<open>
  C9. The claim is that a call which returns the failure object leaves \<open>captionEnabled\<close>
  as it was. The flag is assigned after the create, show and hide steps and before the
  final verification, which queries the window inside the same \<open>try\<close>. On a handle whose
  window has been destroyed every method throws: \<open>showCaptionWindow\<close> swallows its
  error, the flag becomes \<open>true\<close>, the query \<open>isVisible()\<close> throws, and the call returns
  the failure object with the flag changed from \<open>false\<close> to \<open>true\<close>.
\<close>

theorem toggleCaptionOverlay_failure_sets_flag:
  "fst (toggleCaptionOverlay True stale_handle)
     = Inr (Failure ''Object has been destroyed'' ''TypeError: Object has been destroyed'')
   \<and> captionEnabled stale_handle = False
   \<and> captionEnabled (snd (toggleCaptionOverlay True stale_handle)) = True"
  by (simp add: toggleCaptionOverlay_def toggle_steps_def showCaptionWindow_def show_calls_def
      final_verification_def query_def emergency_cleanup_def stale_handle_def
      object_destroyed_def fresh_window_def prog_defs platform_defs)

lemma updateCaptionText_sends:
  assumes "captionWindow s = Some w" "\<not> destroyed w" "fst (next_fault s) = None"
  shows "updateCaptionText data now s =
     (Inr (), s\<lparr>captionWindow := Some (w\<lparr>received := received w @ [make_bilingual_data data now]\<rparr>),
                faults := snd (next_fault s), trace := trace s @ [(Send, True)]\<rparr>)"
  using assms
  by (cases "next_fault s")
    (simp add: updateCaptionText_def send_def prog_defs win_call_def)

lemma updateCaptionText_never_throws:
  "\<exists>s'. updateCaptionText data now s = (Inr (), s')"
  by (auto simp: updateCaptionText_def send_def prog_defs win_call_def
      split: option.splits prod.splits sum.splits)

lemma updateCaptionText_no_window:
  "captionWindow s = None \<Longrightarrow> updateCaptionText data now s = (Inr (), s)"
  by (simp add: updateCaptionText_def ret_def)

lemma then_progE:
  assumes "then_prog m n s = (r, s')"
  obtains (threw) e where "m s = (Inl e, s')" "r = Inl e"
        | (went) x s1 where "m s = (Inr x, s1)" "n s1 = (r, s')"
  using assms by (auto simp: then_prog_def bind_prog_def split: prod.splits sum.splits)

lemma win_call_received:
  assumes "win_call c s = (r, s')" "captionWindow s = Some w"
  shows "\<exists>w'. captionWindow s' = Some w' \<and> received w' = received w"
  using assms
  by (cases c) (auto simp: win_call_def next_fault_def split: option.splits list.splits)

lemma calls_received:
  "calls cs s = (r, s') \<Longrightarrow> captionWindow s = Some w \<Longrightarrow>
     \<exists>w'. captionWindow s' = Some w' \<and> received w' = received w"
proof (induction cs arbitrary: s w)
  case Nil
  then show ?case by (simp add: ret_def)
next
  case (Cons c cs)
  from Cons.prems(1) have "then_prog (win_call c) (calls cs) s = (r, s')" by simp
  then show ?case
  proof (cases rule: then_progE)
    case (threw e)
    from win_call_received [OF threw(1) Cons.prems(2)] show ?thesis .
  next
    case (went x s1)
    from win_call_received [OF went(1) Cons.prems(2)] obtain w1 where
      "captionWindow s1 = Some w1" "received w1 = received w" by blast
    with Cons.IH [OF went(2)] show ?thesis by auto
  qed
qed

lemma createCaptionWindow_try_received:
  assumes "createCaptionWindow_try s = (Inr x, s')"
  shows "\<exists>w'. captionWindow s' = Some w' \<and> received w' = []"
proof -
  from assms have "then_prog getPrimaryDisplay
       (then_prog new_BrowserWindow
          (then_prog (calls (SetAlwaysOnTop # handler_calls)) load_caption)) s = (Inr x, s')"
    by (simp add: createCaptionWindow_try_def)
  then obtain x1 s1 where
    "then_prog new_BrowserWindow
          (then_prog (calls (SetAlwaysOnTop # handler_calls)) load_caption) s1 = (Inr x, s')"
    by (cases rule: then_progE) auto
  then obtain x2 s2 where n: "new_BrowserWindow s1 = (Inr x2, s2)"
    and r2: "then_prog (calls (SetAlwaysOnTop # handler_calls)) load_caption s2 = (Inr x, s')"
    by (cases rule: then_progE) auto
  from n have w2: "captionWindow s2 = Some fresh_window"
    by (auto simp: new_BrowserWindow_def next_fault_def split: list.splits option.splits)
  from r2 obtain x3 s3 where c3: "calls (SetAlwaysOnTop # handler_calls) s2 = (Inr x3, s3)"
    and l: "load_caption s3 = (Inr x, s')"
    by (cases rule: then_progE) auto
  from calls_received [OF c3 w2] obtain w3 where
    w3: "captionWindow s3 = Some w3" "received w3 = []"
    by (auto simp: fresh_window_def)
  from l have "calls [LoadContent] s3 = (Inr x, s')"
    by (auto simp: load_caption_def try_catch_def throw_def split: prod.splits sum.splits
        simp del: calls.simps)
  from calls_received [OF this w3(1)] w3(2) show ?thesis by simp
qed

lemma createCaptionWindow_fresh:
  assumes "captionWindow s = None" "createCaptionWindow s = (r, s')" "captionWindow s' = Some w'"
  shows "received w' = []"
proof (cases "createCaptionWindow_try s")
  case (Pair r1 s1)
  show ?thesis
  proof (cases r1)
    case (Inl e)
    from createCaptionWindow_catch_result [of e s1] Pair Inl assms show ?thesis
      by (auto simp: createCaptionWindow_def if_window_def try_catch_def)
  next
    case (Inr x)
    with Pair assms(1,2) have "s' = s1"
      by (simp add: createCaptionWindow_def if_window_def try_catch_def)
    with createCaptionWindow_try_received Pair Inr assms(3) show ?thesis by fastforce
  qed
qed

text \<open>
  C6. \<open>updateCaptionText\<close> fills the fields that are missing (a missing field reads as
  \<open>undefined\<close>, which is neither truthy nor a number) with \<open>confidence: 0\<close>,
  \<open>translation: ''\<close>, \<open>sourceLanguage: 'auto'\<close>, \<open>targetLanguage: 'en'\<close>, stamps the
  clock reading, and sends the object to a live window. It never throws. Without a
  window it leaves the state as it is, so that a window created afterwards starts with
  nothing received.
\<close>

theorem updateCaptionText_defaults:
  "(\<not> is_number (js_get data ''confidence'')
      \<longrightarrow> bd_confidence (make_bilingual_data data now) = JNum 0)
   \<and> (\<not> truthy (js_get data ''translation'') \<and> \<not> truthy (js_get data ''translated'')
      \<longrightarrow> bd_translation (make_bilingual_data data now) = JStr '''')
   \<and> (\<not> truthy (js_get data ''sourceLanguage'') \<and> \<not> truthy (js_get data ''source_language'')
      \<longrightarrow> bd_sourceLanguage (make_bilingual_data data now) = JStr ''auto'')
   \<and> (\<not> truthy (js_get data ''targetLanguage'') \<and> \<not> truthy (js_get data ''target_language'')
      \<longrightarrow> bd_targetLanguage (make_bilingual_data data now) = JStr ''en'')
   \<and> timestamp (make_bilingual_data data now) = now
   \<and> (captionWindow s = Some w \<and> \<not> destroyed w \<and> fst (next_fault s) = None
      \<longrightarrow> (\<exists>s'. updateCaptionText data now s = (Inr (), s')
            \<and> captionWindow s'
                = Some (w\<lparr>received := received w @ [make_bilingual_data data now]\<rparr>)))
   \<and> (\<exists>s'. updateCaptionText data now s = (Inr (), s'))
   \<and> (captionWindow s = None
      \<longrightarrow> updateCaptionText data now s = (Inr (), s)
          \<and> (\<forall>r s' w'. createCaptionWindow (snd (updateCaptionText data now s)) = (r, s')
                \<and> captionWindow s' = Some w' \<longrightarrow> received w' = []))"
proof -
  have a: "captionWindow s = Some w \<and> \<not> destroyed w \<and> fst (next_fault s) = None
      \<longrightarrow> (\<exists>s'. updateCaptionText data now s = (Inr (), s')
            \<and> captionWindow s'
                = Some (w\<lparr>received := received w @ [make_bilingual_data data now]\<rparr>))"
    using updateCaptionText_sends [of s w data now] by simp
  have b: "captionWindow s = None
      \<longrightarrow> updateCaptionText data now s = (Inr (), s)
          \<and> (\<forall>r s' w'. createCaptionWindow (snd (updateCaptionText data now s)) = (r, s')
                \<and> captionWindow s' = Some w' \<longrightarrow> received w' = [])"
    using updateCaptionText_no_window [of s data now] createCaptionWindow_fresh [of s]
    by auto
  have c: "timestamp (make_bilingual_data data now) = now"
    "\<not> is_number (js_get data ''confidence'')
      \<longrightarrow> bd_confidence (make_bilingual_data data now) = JNum 0"
    "\<not> truthy (js_get data ''translation'') \<and> \<not> truthy (js_get data ''translated'')
      \<longrightarrow> bd_translation (make_bilingual_data data now) = JStr ''''"
    "\<not> truthy (js_get data ''sourceLanguage'') \<and> \<not> truthy (js_get data ''source_language'')
      \<longrightarrow> bd_sourceLanguage (make_bilingual_data data now) = JStr ''auto''"
    "\<not> truthy (js_get data ''targetLanguage'') \<and> \<not> truthy (js_get data ''target_language'')
      \<longrightarrow> bd_targetLanguage (make_bilingual_data data now) = JStr ''en''"
    by (simp_all add: make_bilingual_data_def js_or_def)
  from a b c updateCaptionText_never_throws [of data now s] show ?thesis by blast
qed

text \<open>
  C8, as the code has it. The flags \<open>fromTranscription\<close> and \<open>isRealTime\<close> of the object
  sent to the overlay are \<open>data.fromTranscription || true\<close> and \<open>data.isRealTime || true\<close>:
  a truthy value of the caller is kept as it is, every other value becomes \<open>true\<close>. So
  the flags are truthy and never \<open>false\<close>, and they are \<open>true\<close> whenever the caller
  passes a boolean, an explicit \<open>false\<close> included, or leaves the field out.
\<close>

theorem updateCaptionText_flags:
  "fromTranscription (make_bilingual_data data now)
     = (if truthy (js_get data ''fromTranscription'') then js_get data ''fromTranscription''
        else JBool True)
   \<and> isRealTime (make_bilingual_data data now)
     = (if truthy (js_get data ''isRealTime'') then js_get data ''isRealTime'' else JBool True)
   \<and> truthy (fromTranscription (make_bilingual_data data now))
   \<and> fromTranscription (make_bilingual_data data now) \<noteq> JBool False
   \<and> truthy (isRealTime (make_bilingual_data data now))
   \<and> isRealTime (make_bilingual_data data now) \<noteq> JBool False
   \<and> (optional_boolean (js_get data ''fromTranscription'')
      \<longrightarrow> fromTranscription (make_bilingual_data data now) = JBool True)
   \<and> (optional_boolean (js_get data ''isRealTime'')
      \<longrightarrow> isRealTime (make_bilingual_data data now) = JBool True)
   \<and> (captionWindow s = Some w \<and> \<not> destroyed w \<and> fst (next_fault s) = None
      \<longrightarrow> (\<exists>s' w'. updateCaptionText data now s = (Inr (), s') \<and> captionWindow s' = Some w'
            \<and> last (received w') = make_bilingual_data data now))"
proof -
  have a: "captionWindow s = Some w \<and> \<not> destroyed w \<and> fst (next_fault s) = None
      \<longrightarrow> (\<exists>s' w'. updateCaptionText data now s = (Inr (), s') \<and> captionWindow s' = Some w'
            \<and> last (received w') = make_bilingual_data data now)"
    using updateCaptionText_sends [of s w data now] by simp
  have f: "truthy (js_or v (JBool True))" "js_or v (JBool True) \<noteq> JBool False"
    "optional_boolean v \<longrightarrow> js_or v (JBool True) = JBool True" for v
    by (cases v; simp add: js_or_def)+
  have g: "js_or v (JBool True) = (if truthy v then v else JBool True)" for v
    by (simp add: js_or_def)
  have m: "fromTranscription (make_bilingual_data data now)
      = js_or (js_get data ''fromTranscription'') (JBool True)"
    "isRealTime (make_bilingual_data data now) = js_or (js_get data ''isRealTime'') (JBool True)"
    by (simp_all add: make_bilingual_data_def)
  from a f [of "js_get data ''fromTranscription''"] f [of "js_get data ''isRealTime''"]
    g [of "js_get data ''fromTranscription''"] g [of "js_get data ''isRealTime''"]
  show ?thesis unfolding m by blast
qed

text \<open>
  C8 as stated fails: a caller that passes \<open>'yes'\<close> and \<open>5\<close> for the flags gets them
  back; the object sent to the overlay has \<open>fromTranscription = 'yes'\<close> and
  \<open>isRealTime = 5\<close>, not \<open>true\<close>.
\<close>

theorem flags_kept_counterexample:
  "fromTranscription (make_bilingual_data truthy_flags_caption 7) = JStr ''yes''
   \<and> isRealTime (make_bilingual_data truthy_flags_caption 7) = JNum 5
   \<and> fromTranscription (make_bilingual_data truthy_flags_caption 7) \<noteq> JBool True
   \<and> isRealTime (make_bilingual_data truthy_flags_caption 7) \<noteq> JBool True
   \<and> map_option received (captionWindow (snd (updateCaptionText truthy_flags_caption 7 overlay_on)))
       = Some [make_bilingual_data truthy_flags_caption 7]"
  by (simp add: make_bilingual_data_def truthy_flags_caption_def js_get_def js_or_def
      updateCaptionText_def send_def overlay_on_def fresh_window_def prog_defs win_call_def
      next_fault_def)

text \<open>
  A caption object with the text only, with the overlay on and without a window.
\<close>

theorem updateCaptionText_defaults_witness:
  "\<not> is_number (js_get bare_caption ''confidence'')
   \<and> \<not> truthy (js_get bare_caption ''translation'')
   \<and> \<not> truthy (js_get bare_caption ''translated'')
   \<and> \<not> truthy (js_get bare_caption ''sourceLanguage'')
   \<and> \<not> truthy (js_get bare_caption ''source_language'')
   \<and> \<not> truthy (js_get bare_caption ''targetLanguage'')
   \<and> \<not> truthy (js_get bare_caption ''target_language'')
   \<and> make_bilingual_data bare_caption 7
       = \<lparr>original = JStr ''Hi'', bd_translation = JStr '''', bd_confidence = JNum 0,
          bd_sourceLanguage = JStr ''auto'', bd_targetLanguage = JStr ''en'',
          fromTranscription = JBool True, isRealTime = JBool True, timestamp = 7\<rparr>
   \<and> (\<exists>s'. updateCaptionText bare_caption 7 overlay_on = (Inr (), s')
          \<and> map_option received (captionWindow s') = Some [make_bilingual_data bare_caption 7])
   \<and> captionWindow no_overlay = None
   \<and> updateCaptionText bare_caption 7 no_overlay = (Inr (), no_overlay)
   \<and> map_option received
         (captionWindow (snd (createCaptionWindow (snd (updateCaptionText bare_caption 7 no_overlay)))))
       = Some []"
proof -
  have h: "\<not> is_number (js_get bare_caption ''confidence'')"
    "\<not> truthy (js_get bare_caption ''translation'')"
    "\<not> truthy (js_get bare_caption ''translated'')"
    "\<not> truthy (js_get bare_caption ''sourceLanguage'')"
    "\<not> truthy (js_get bare_caption ''source_language'')"
    "\<not> truthy (js_get bare_caption ''targetLanguage'')"
    "\<not> truthy (js_get bare_caption ''target_language'')"
    by (simp_all add: bare_caption_def js_get_def)
  have w: "captionWindow overlay_on = Some (fresh_window\<lparr>visible := True\<rparr>)"
    "\<not> destroyed (fresh_window\<lparr>visible := True\<rparr>)" "fst (next_fault overlay_on) = None"
    "received (fresh_window\<lparr>visible := True\<rparr>) = []"
    by (simp_all add: overlay_on_def fresh_window_def next_fault_def)
  have n: "captionWindow no_overlay = None" by (simp add: no_overlay_def)
  have m: "make_bilingual_data bare_caption 7
       = \<lparr>original = JStr ''Hi'', bd_translation = JStr '''', bd_confidence = JNum 0,
          bd_sourceLanguage = JStr ''auto'', bd_targetLanguage = JStr ''en'',
          fromTranscription = JBool True, isRealTime = JBool True, timestamp = 7\<rparr>"
    using updateCaptionText_defaults [of bare_caption 7 overlay_on "fresh_window\<lparr>visible := True\<rparr>"] h
    by (simp add: make_bilingual_data_def js_or_def bare_caption_def js_get_def)
  have u: "updateCaptionText bare_caption 7 no_overlay = (Inr (), no_overlay)"
    using updateCaptionText_defaults [of bare_caption 7 no_overlay undefined] n by simp
  have "captionWindow (snd (createCaptionWindow no_overlay)) \<noteq> None"
    by (simp add: createCaptionWindow_def createCaptionWindow_try_def load_caption_def
        handler_calls_def no_overlay_def prog_defs platform_defs)
  then obtain w' where c: "captionWindow (snd (createCaptionWindow no_overlay)) = Some w'"
    by blast
  have "received w' = []"
    using updateCaptionText_defaults [of bare_caption 7 no_overlay undefined] n u c
    by (metis prod.collapse snd_conv)
  with c u have l: "map_option received
         (captionWindow (snd (createCaptionWindow (snd (updateCaptionText bare_caption 7 no_overlay)))))
       = Some []"
    by simp
  from updateCaptionText_defaults [of bare_caption 7 overlay_on "fresh_window\<lparr>visible := True\<rparr>"]
    h w n m u l
  show ?thesis by auto
qed

text \<open>
  The caller passes \<open>false\<close> for both flags.
\<close>

theorem updateCaptionText_flags_witness:
  "optional_boolean (js_get flags_off_caption ''fromTranscription'')
   \<and> optional_boolean (js_get flags_off_caption ''isRealTime'')
   \<and> js_get flags_off_caption ''fromTranscription'' = JBool False
   \<and> js_get flags_off_caption ''isRealTime'' = JBool False
   \<and> fromTranscription (make_bilingual_data flags_off_caption 7) = JBool True
   \<and> isRealTime (make_bilingual_data flags_off_caption 7) = JBool True
   \<and> (\<exists>s' w'. updateCaptionText flags_off_caption 7 overlay_on = (Inr (), s')
          \<and> captionWindow s' = Some w'
          \<and> fromTranscription (last (received w')) = JBool True
          \<and> isRealTime (last (received w')) = JBool True)"
proof -
  have h: "optional_boolean (js_get flags_off_caption ''fromTranscription'')"
    "optional_boolean (js_get flags_off_caption ''isRealTime'')"
    "js_get flags_off_caption ''fromTranscription'' = JBool False"
    "js_get flags_off_caption ''isRealTime'' = JBool False"
    by (simp_all add: flags_off_caption_def js_get_def)
  have w: "captionWindow overlay_on = Some (fresh_window\<lparr>visible := True\<rparr>)"
    "\<not> destroyed (fresh_window\<lparr>visible := True\<rparr>)" "fst (next_fault overlay_on) = None"
    by (simp_all add: overlay_on_def fresh_window_def next_fault_def)
  from updateCaptionText_flags [of flags_off_caption 7 overlay_on "fresh_window\<lparr>visible := True\<rparr>"]
    h w show ?thesis by auto
qed

section \<open>Properties of the renderer\<close>

lemma on_regular_result_closed:
  "\<not> gate_open st now \<Longrightarrow> on_regular_result r lang now st = (st\<lparr>isTranscribing := False\<rparr>, None)"
  by (simp add: on_regular_result_def)

lemma on_regular_result_last:
  "gate_open st now \<Longrightarrow>
     lastTranscriptionUpdate (fst (on_regular_result r lang now st)) = now"
  by (simp add: on_regular_result_def Let_def split: option.splits prod.splits)

lemma on_transcription_last:
  "gate_open st now \<Longrightarrow> lastTranscriptionUpdate (fst (on_transcription d lang now st)) = now"
  by (simp add: on_transcription_def Let_def split: option.splits prod.splits)

lemma onmessage_last:
  "lastTranscriptionUpdate (fst (onmessage m lang now st)) =
     (if transcription_category m \<and> gate_open st now then now else lastTranscriptionUpdate st)"
proof (cases m)
  case (Transcription d)
  then show ?thesis
    by (cases "gate_open st now") (simp_all add: on_transcription_last, simp add: on_transcription_def)
next
  case (TranscriptionResult e r)
  show ?thesis
  proof (cases "e \<and> result_translation r \<noteq> None")
    case True
    with TranscriptionResult show ?thesis
      by (auto simp: on_transcription_result_def on_enhancement_def)
  next
    case False
    then have "on_transcription_result e r lang now st = on_regular_result r lang now st"
      by (auto simp: on_transcription_result_def split: bool.splits option.splits)
    with TranscriptionResult False show ?thesis
      by (cases "gate_open st now")
        (simp_all add: on_regular_result_last on_regular_result_closed)
  qed
qed simp_all

lemma onmessage_rejected:
  assumes "transcription_category m" "\<not> gate_open st now"
  shows "onmessage m lang now st =
     ((case m of TranscriptionResult e r \<Rightarrow> st\<lparr>isTranscribing := False\<rparr> | _ \<Rightarrow> st), None)"
proof (cases m)
  case (Transcription d)
  with assms show ?thesis by (simp add: on_transcription_def)
next
  case (TranscriptionResult e r)
  with assms have "on_transcription_result e r lang now st = on_regular_result r lang now st"
    by (auto simp: on_transcription_result_def split: bool.splits option.splits)
  with TranscriptionResult assms show ?thesis by (simp add: on_regular_result_closed)
qed (use assms in simp_all)

lemma accepted_times_later:
  "a \<in> set (accepted_times evs lang st) \<Longrightarrow>
     a - lastTranscriptionUpdate st > TRANSCRIPTION_UPDATE_THROTTLE"
proof (induction evs arbitrary: st)
  case Nil
  then show ?case by simp
next
  case (Cons ev evs)
  obtain m now where ev: "ev = (m, now)" by (cases ev)
  let ?st' = "fst (onmessage m lang now st)"
  show ?case
  proof (cases "transcription_category m \<and> gate_open st now")
    case True
    then have l: "lastTranscriptionUpdate ?st' = now" by (simp add: onmessage_last)
    from True have g: "now - lastTranscriptionUpdate st > TRANSCRIPTION_UPDATE_THROTTLE"
      by (simp add: gate_open_def)
    from Cons.prems ev True have "a = now \<or> a \<in> set (accepted_times evs lang ?st')" by auto
    then show ?thesis
    proof
      assume "a = now" with g show ?thesis by simp
    next
      assume "a \<in> set (accepted_times evs lang ?st')"
      from Cons.IH [OF this] l g show ?thesis
        by (simp add: TRANSCRIPTION_UPDATE_THROTTLE_def)
    qed
  next
    case False
    then have l: "lastTranscriptionUpdate ?st' = lastTranscriptionUpdate st"
      by (auto simp: onmessage_last)
    from Cons.prems ev False have "a \<in> set (accepted_times evs lang ?st')" by auto
    from Cons.IH [OF this] l show ?thesis by simp
  qed
qed

lemma accepted_times_spaced:
  "sorted_wrt (\<lambda>a b. b - a > TRANSCRIPTION_UPDATE_THROTTLE) (accepted_times evs lang st)"
proof (induction evs arbitrary: st)
  case Nil
  then show ?case by simp
next
  case (Cons ev evs)
  obtain m now where ev: "ev = (m, now)" by (cases ev)
  let ?st' = "fst (onmessage m lang now st)"
  show ?case
  proof (cases "transcription_category m \<and> gate_open st now")
    case True
    then have l: "lastTranscriptionUpdate ?st' = now" by (simp add: onmessage_last)
    have "\<forall>a \<in> set (accepted_times evs lang ?st'). a - now > TRANSCRIPTION_UPDATE_THROTTLE"
      using accepted_times_later [of _ evs lang ?st'] l by simp
    with Cons.IH [of ?st'] ev True show ?thesis by simp
  next
    case False
    with Cons.IH [of ?st'] ev show ?thesis by auto
  qed
qed

text \<open>
  C2. Among the transcription events, any two that pass the throttle test are more than
  40 ms apart, so that no window of 40 ms holds two of them. An event passes only if
  \<open>now - lastTranscriptionUpdate\<close> is at least the interval (the test is the strict
  \<open>>\<close>), and then it becomes the last accepted one. An event that does not pass is
  dropped: nothing is sent to the overlay and the state keeps no trace of it (a
  \<open>transcription_result\<close> still ends with \<open>setIsTranscribing(false)\<close>).
\<close>

theorem transcription_throttle:
  "sorted_wrt (\<lambda>a b. b - a > TRANSCRIPTION_UPDATE_THROTTLE) (accepted_times evs lang st)
   \<and> (\<forall>i j. i < j \<and> j < length (accepted_times evs lang st)
        \<longrightarrow> accepted_times evs lang st ! j - accepted_times evs lang st ! i > 40)
   \<and> (transcription_category m \<and> gate_open st now
        \<longrightarrow> now - lastTranscriptionUpdate st \<ge> TRANSCRIPTION_UPDATE_THROTTLE
            \<and> lastTranscriptionUpdate (fst (onmessage m lang now st)) = now)
   \<and> (transcription_category m \<and> \<not> gate_open st now
        \<longrightarrow> onmessage m lang now st =
              ((case m of TranscriptionResult e r \<Rightarrow> st\<lparr>isTranscribing := False\<rparr> | _ \<Rightarrow> st),
               None))"
proof -
  have s: "sorted_wrt (\<lambda>a b. b - a > TRANSCRIPTION_UPDATE_THROTTLE) (accepted_times evs lang st)"
    by (rule accepted_times_spaced)
  then have "\<forall>i j. i < j \<and> j < length (accepted_times evs lang st)
        \<longrightarrow> accepted_times evs lang st ! j - accepted_times evs lang st ! i > 40"
    by (auto simp: sorted_wrt_iff_nth_less TRANSCRIPTION_UPDATE_THROTTLE_def)
  moreover have "transcription_category m \<and> gate_open st now
        \<longrightarrow> now - lastTranscriptionUpdate st \<ge> TRANSCRIPTION_UPDATE_THROTTLE
            \<and> lastTranscriptionUpdate (fst (onmessage m lang now st)) = now"
    by (simp add: onmessage_last gate_open_def)
  moreover have "transcription_category m \<and> \<not> gate_open st now
        \<longrightarrow> onmessage m lang now st =
              ((case m of TranscriptionResult e r \<Rightarrow> st\<lparr>isTranscribing := False\<rparr> | _ \<Rightarrow> st),
               None)"
    using onmessage_rejected [of m st now lang] by blast
  ultimately show ?thesis using s by blast
qed

lemmas app_defs = on_transcription_def on_transcription_result_def on_regular_result_def
  on_enhancement_def gate_open_def TRANSCRIPTION_UPDATE_THROTTLE_def js_trim_def
  js_whitespace_def confidence_percent_def translation_text_def polisher_flag_def
  updateCaptionOverlay_def caption_payload_def word_count_def opt_str_def Let_def

lemmas pipeline_defs = deliver_def shown_def updateCaptionText_def send_def
  make_bilingual_data_def js_get_def js_or_def win_call_def next_fault_def
  ret_def throw_def bind_prog_def then_prog_def try_catch_def modify_def

lemmas scenario_defs = session_start_def session_en_es_def initial_app_def overlay_on_def
  fresh_window_def plain_result_def translated_result_def hola_event_def adios_event_def
  hello_enhancement_def handleTargetLanguageChange_def

lemma after_one_eval:
  "after_one =
     initial_app\<lparr>transcription := ''one'', confidence := 100, translation := Some '''',
       translationConfidence := 0, wordsProcessed := 1, lastTranscriptionUpdate := 1000\<rparr>"
  by (simp add: after_one_def app_defs scenario_defs)

lemma three_events_accepted:
  "accepted_times three_events ''en'' initial_app = [1000, 1041]"
  by (simp add: three_events_def app_defs scenario_defs)

text \<open>
  Three events at 1000, 1040 and 1041 ms: the second, exactly 40 ms after the first,
  is dropped.
\<close>

theorem transcription_throttle_witness:
  "accepted_times three_events ''en'' initial_app = [1000, 1041]
   \<and> (0::nat) < 1 \<and> 1 < length (accepted_times three_events ''en'' initial_app)
   \<and> accepted_times three_events ''en'' initial_app ! 1
       - accepted_times three_events ''en'' initial_app ! 0 > 40
   \<and> transcription_category (Transcription (plain_result ''one'' 1))
   \<and> gate_open initial_app 1000
   \<and> 1000 - lastTranscriptionUpdate initial_app \<ge> TRANSCRIPTION_UPDATE_THROTTLE
   \<and> lastTranscriptionUpdate after_one = 1000
   \<and> transcription_category (Transcription (plain_result ''two'' 1))
   \<and> \<not> gate_open after_one 1040
   \<and> onmessage (Transcription (plain_result ''two'' 1)) ''en'' 1040 after_one
       = (after_one, None)"
proof -
  have a: "accepted_times three_events ''en'' initial_app = [1000, 1041]"
    by (rule three_events_accepted)
  have g1: "transcription_category (Transcription (plain_result ''one'' 1))
      \<and> gate_open initial_app 1000"
    by (simp add: gate_open_def TRANSCRIPTION_UPDATE_THROTTLE_def initial_app_def)
  have g2: "transcription_category (Transcription (plain_result ''two'' 1))
      \<and> \<not> gate_open after_one 1040"
    by (simp add: after_one_eval gate_open_def TRANSCRIPTION_UPDATE_THROTTLE_def)
  from transcription_throttle
    [of three_events "''en''" initial_app "Transcription (plain_result ''one'' 1)" 1000]
  have t1: "(\<forall>i j. i < j \<and> j < length (accepted_times three_events ''en'' initial_app)
        \<longrightarrow> accepted_times three_events ''en'' initial_app ! j
            - accepted_times three_events ''en'' initial_app ! i > 40)"
    and t2: "1000 - lastTranscriptionUpdate initial_app \<ge> TRANSCRIPTION_UPDATE_THROTTLE"
    and t3: "lastTranscriptionUpdate after_one = 1000"
    using g1 by (simp_all add: after_one_def)
  from t1 a have t4: "accepted_times three_events ''en'' initial_app ! 1
       - accepted_times three_events ''en'' initial_app ! 0 > 40"
    by simp
  from transcription_throttle
    [of three_events "''en''" after_one "Transcription (plain_result ''two'' 1)" 1040] g2
  have t5: "onmessage (Transcription (plain_result ''two'' 1)) ''en'' 1040 after_one
       = (after_one, None)"
    by simp
  from a g1 g2 t2 t3 t4 t5 show ?thesis by simp
qed

lemma after_hola_eval:
  "app_st after_hola =
     initial_app\<lparr>transcription := ''Hola'', confidence := 90, translation := Some '''',
       translationConfidence := 0, wordsProcessed := 1, lastTranscriptionUpdate := 100,
       isTranscribing := False\<rparr>"
  "main_st after_hola =
     overlay_on\<lparr>captionWindow := Some (fresh_window\<lparr>visible := True, received :=
       [\<lparr>original = JStr ''Hola'', bd_translation = JStr '''', bd_confidence = JNum 90,
           bd_sourceLanguage = JStr ''auto'', bd_targetLanguage = JStr ''en'',
           fromTranscription = JBool True, isRealTime = JBool True, timestamp = 100\<rparr>]\<rparr>),
       trace := [(Send, True)]\<rparr>"
  by (simp_all add: after_hola_def app_defs pipeline_defs scenario_defs)

text \<open>
  C1, as the code has it. An enhancement changes \<open>translation\<close> and
  \<open>translationConfidence\<close> of the component state and nothing else (the transcription,
  its confidence and the throttle stamp stay). The caption state sent to a live overlay
  is built anew from the event: its \<open>original\<close> is the transcript of the event, its
  \<open>translation\<close> the improved text, and its \<open>timestamp\<close> the clock reading at the
  enhancement, not the one of the base transcription.
\<close>

theorem enhancement_republishes:
  assumes "hasElectronAPI (app_st sys)" "captionWindow (main_st sys) = Some w"
    "\<not> destroyed w" "fst (next_fault (main_st sys)) = None"
  shows "app_st (deliver (TranscriptionResult True (r\<lparr>result_translation := Some tr\<rparr>)) lang now sys)
           = (app_st sys)\<lparr>translation := tr_text tr, translationConfidence := 90\<rparr>
     \<and> (\<exists>d. shown (deliver (TranscriptionResult True (r\<lparr>result_translation := Some tr\<rparr>)) lang now sys)
              = Some d
           \<and> original d = js_or (opt_str (transcript r)) (JStr '''')
           \<and> bd_translation d = js_or (opt_str (tr_text tr)) (JStr '''')
           \<and> bd_confidence d = JNum (confidence_percent (result_confidence r))
           \<and> timestamp d = now)"
proof -
  let ?p = "caption_payload (opt_str (transcript r)) (opt_str (tr_text tr))
              (confidence_percent (result_confidence r)) lang now"
  have o: "onmessage (TranscriptionResult True (r\<lparr>result_translation := Some tr\<rparr>)) lang now (app_st sys)
      = ((app_st sys)\<lparr>translation := tr_text tr, translationConfidence := 90\<rparr>, Some ?p)"
    using assms(1)
    by (simp add: on_transcription_result_def on_enhancement_def updateCaptionOverlay_def)
  have u: "updateCaptionText ?p now (main_st sys) =
     (Inr (), (main_st sys)\<lparr>captionWindow := Some (w\<lparr>received := received w @ [make_bilingual_data ?p now]\<rparr>),
                faults := snd (next_fault (main_st sys)),
                trace := trace (main_st sys) @ [(Send, True)]\<rparr>)"
    by (rule updateCaptionText_sends [OF assms(2-4)])
  have d: "original (make_bilingual_data ?p now) = js_or (opt_str (transcript r)) (JStr '''')"
    "bd_translation (make_bilingual_data ?p now) = js_or (opt_str (tr_text tr)) (JStr '''')"
    "bd_confidence (make_bilingual_data ?p now) = JNum (confidence_percent (result_confidence r))"
    "timestamp (make_bilingual_data ?p now) = now"
    by (simp_all add: make_bilingual_data_def caption_payload_def js_get_def js_or_def)
  from o u d show ?thesis by (simp add: deliver_def shown_def)
qed

text \<open>
  "Hola" at 100 ms, then its enhancement "Hello" at 250 ms.
\<close>

theorem enhancement_republishes_witness:
  "hasElectronAPI (app_st after_hola)
   \<and> captionWindow (main_st after_hola) \<noteq> None
   \<and> fst (next_fault (main_st after_hola)) = None
   \<and> map_option timestamp (shown after_hola) = Some 100
   \<and> transcription (app_st (deliver hello_enhancement ''en'' 250 after_hola)) = ''Hola''
   \<and> translation (app_st (deliver hello_enhancement ''en'' 250 after_hola)) = Some ''Hello''
   \<and> lastTranscriptionUpdate (app_st (deliver hello_enhancement ''en'' 250 after_hola)) = 100
   \<and> (\<exists>d. shown (deliver hello_enhancement ''en'' 250 after_hola) = Some d
         \<and> original d = JStr ''Hola'' \<and> bd_translation d = JStr ''Hello''
         \<and> bd_confidence d = JNum 90 \<and> timestamp d = 250)"
proof -
  let ?w = "fresh_window\<lparr>visible := True, received :=
       [\<lparr>original = JStr ''Hola'', bd_translation = JStr '''', bd_confidence = JNum 90,
           bd_sourceLanguage = JStr ''auto'', bd_targetLanguage = JStr ''en'',
           fromTranscription = JBool True, isRealTime = JBool True, timestamp = 100\<rparr>]\<rparr>"
  let ?tr = "\<lparr>tr_text = Some ''Hello'', source_language = None, target_language = None,
              polisher_applied = True\<rparr>"
  have h: "hasElectronAPI (app_st after_hola)" "captionWindow (main_st after_hola) = Some ?w"
    "\<not> destroyed ?w" "fst (next_fault (main_st after_hola)) = None"
    by (simp_all add: after_hola_eval initial_app_def overlay_on_def fresh_window_def
        next_fault_def)
  have e: "hello_enhancement =
      TranscriptionResult True ((plain_result ''Hola'' (9 / 10))\<lparr>result_translation := Some ?tr\<rparr>)"
    by (simp add: hello_enhancement_def translated_result_def plain_result_def)
  have s: "map_option timestamp (shown after_hola) = Some 100"
    by (simp add: shown_def after_hola_eval fresh_window_def)
  from enhancement_republishes
    [OF h, where r = "plain_result ''Hola'' (9 / 10)" and tr = ?tr and lang = "''en''"
      and now = 250] h s
  show ?thesis
    unfolding e
    by (simp add: after_hola_eval initial_app_def plain_result_def opt_str_def js_or_def
        confidence_percent_def)
qed

text \<open>
  C1 as stated fails: after "Hola" at 100 ms and the enhancement at 250 ms the overlay
  holds \<open>original = "Hola"\<close>, \<open>translation = "Hello"\<close> and \<open>timestamp = 250\<close>, not 100.
\<close>

theorem enhancement_timestamp_counterexample:
  "map_option original (shown (deliver hello_enhancement ''en'' 250 after_hola))
     = Some (JStr ''Hola'')
   \<and> map_option bd_translation (shown (deliver hello_enhancement ''en'' 250 after_hola))
     = Some (JStr ''Hello'')
   \<and> map_option timestamp (shown after_hola) = Some 100
   \<and> map_option timestamp (shown (deliver hello_enhancement ''en'' 250 after_hola)) = Some 250
   \<and> map_option timestamp (shown (deliver hello_enhancement ''en'' 250 after_hola)) \<noteq> Some 100"
  by (simp add: after_hola_def app_defs pipeline_defs scenario_defs)

text \<open>
  C4, as the code has it. An enhancement that carries a translation object is applied
  in every state: the translation becomes the text of the event, the translation
  confidence 90, and the caption object of the event goes to the overlay. The handler
  compares nothing with the current transcription and does not consult the throttle;
  the transcription and the throttle stamp stay as they are.
\<close>

theorem enhancement_unconditional:
  "onmessage (TranscriptionResult True (r\<lparr>result_translation := Some tr\<rparr>)) lang now st
     = (st\<lparr>translation := tr_text tr, translationConfidence := 90\<rparr>,
        updateCaptionOverlay (opt_str (transcript r)) (opt_str (tr_text tr))
          (confidence_percent (result_confidence r)) lang now st)
   \<and> transcription (fst (onmessage (TranscriptionResult True (r\<lparr>result_translation := Some tr\<rparr>))
        lang now st)) = transcription st
   \<and> lastTranscriptionUpdate
        (fst (onmessage (TranscriptionResult True (r\<lparr>result_translation := Some tr\<rparr>))
           lang now st)) = lastTranscriptionUpdate st"
  by (simp add: on_transcription_result_def on_enhancement_def)

text \<open>
  C4 as stated fails: "Hola" at 100 ms is superseded by "Adios" at 200 ms; the
  enhancement of "Hola" at 300 ms is not dropped. The component then shows "Adios" with
  the translation "Hello", and the overlay shows "Hola" / "Hello" again.
\<close>

theorem superseded_enhancement_counterexample:
  "transcription (app_st after_adios) = ''Adios''
   \<and> translation (app_st after_adios) = Some ''''
   \<and> map_option original (shown after_adios) = Some (JStr ''Adios'')
   \<and> transcription (app_st (deliver hello_enhancement ''en'' 300 after_adios)) = ''Adios''
   \<and> translation (app_st (deliver hello_enhancement ''en'' 300 after_adios)) = Some ''Hello''
   \<and> map_option original (shown (deliver hello_enhancement ''en'' 300 after_adios))
       = Some (JStr ''Hola'')
   \<and> map_option bd_translation (shown (deliver hello_enhancement ''en'' 300 after_adios))
       = Some (JStr ''Hello'')
   \<and> shown (deliver hello_enhancement ''en'' 300 after_adios) \<noteq> shown after_adios"
  by (simp add: after_adios_def after_hola_def app_defs pipeline_defs scenario_defs)

text \<open>
  C3. The session runs from English to Spanish, as the \<open>start_capture\<close> message says; a
  result with confidence 0.92 arrives. The caption object of the renderer carries
  \<open>language\<close> but neither \<open>sourceLanguage\<close> nor \<open>targetLanguage\<close>, so the overlay
  receives confidence 92 with the defaults \<open>'auto'\<close> and \<open>'en'\<close>, not \<open>'en'\<close> and
  \<open>'es'\<close>.
\<close>

theorem overlay_languages_defaulted:
  "start_capture_config (app_st session_en_es)
     = \<lparr>sample_rate = 16000, channels = 1, chunk_size = 1024, buffer_duration = 1,
        audio_source = ''microphone'', ac_source_language = ''en'',
        ac_target_language = ''es''\<rparr>
   \<and> shown (deliver hello_en_es ''en'' 1000 session_en_es)
     = Some \<lparr>original = JStr ''Hello'', bd_translation = JStr ''Hola'',
             bd_confidence = JNum 92, bd_sourceLanguage = JStr ''auto'',
             bd_targetLanguage = JStr ''en'', fromTranscription = JBool True,
             isRealTime = JBool True, timestamp = 1000\<rparr>"
  by (simp add: start_capture_config_def hello_en_es_def app_defs pipeline_defs scenario_defs)

section \<open>Properties of the segmenter\<close>











end
